theory Spec2Isabelle
  imports Complex_Main "HOL-Library.Sublist"
begin

section \<open>Data model (types.ts)\<close>

text \<open>
  The string enums of types.ts become datatypes; the functions \<open>level_str\<close>,
  \<open>review_str\<close> and \<open>phase_str\<close> give the string value of each member, which is what
  the template literals of game.ts print.

  TypeScript's \<open>number\<close> is modelled as \<open>real\<close> (exact arithmetic, no NaN, no
  rounding error); a value that went through \<open>Math.round\<close> is an \<open>int\<close>.
\<close>

datatype ProtocolLevel = Low | Medium | High

datatype ReviewAction = Accept | ModifyLow | ModifyMedium | ModifyHigh | Reject

datatype TrueState = SafeLow | DangerousLow

datatype Phase = Proposal | Review | Execution | End

datatype AgentId = AgentA | AgentB

fun level_str :: "ProtocolLevel \<Rightarrow> string" where
  "level_str Low = ''low''"
| "level_str Medium = ''medium''"
| "level_str High = ''high''"

fun review_str :: "ReviewAction \<Rightarrow> string" where
  "review_str Accept = ''accept''"
| "review_str ModifyLow = ''modify-low''"
| "review_str ModifyMedium = ''modify-medium''"
| "review_str ModifyHigh = ''modify-high''"
| "review_str Reject = ''reject''"

fun phase_str :: "Phase \<Rightarrow> string" where
  "phase_str Proposal = ''proposal''"
| "phase_str Review = ''review''"
| "phase_str Execution = ''execution''"
| "phase_str End = ''end''"

text \<open>
  \<open>Record<TrueState, number>\<close> is a JavaScript object, held by reference. The kernel
  mutates such objects in place (\<open>updatedBelief.own[...] += strength\<close>,
  \<open>normalizeBelief\<close>), and the spread copies \<open>{ ...initialBelief }\<close> and
  \<open>{ ...agentBelief }\<close> copy only the references \<open>own\<close> and \<open>aboutOpponent\<close>. So a
  \<open>NestedBelief\<close> is a pair of addresses and the objects live in an explicit store.
\<close>

type_synonym addr = nat

type_synonym belief = "TrueState \<Rightarrow> real"

type_synonym store = "addr \<Rightarrow> belief"

definition mk_belief :: "real \<Rightarrow> real \<Rightarrow> belief" where
  "mk_belief s d = (\<lambda>t. case t of SafeLow \<Rightarrow> s | DangerousLow \<Rightarrow> d)"

record NestedBelief =
  own :: addr
  aboutOpponent :: addr

record Payoffs =
  pay_a :: int
  pay_b :: int

record GameState =
  trueState :: TrueState
  phase :: Phase
  proposal :: "ProtocolLevel option"
  reviewAction :: "ReviewAction option"
  finalProtocol :: "ProtocolLevel option"
  agentBeliefs :: "AgentId \<Rightarrow> NestedBelief"
  history :: "string list"
  payoffs :: "Payoffs option"

record BeliefUpdateStrength =
  for_proposal :: real
  for_review :: real

record GameConfig =
  maxRounds :: nat
  beliefUpdateStrength :: BeliefUpdateStrength
  payoffNoise :: real
  initialBeliefAlignment :: real

definition default_config :: GameConfig where
  "default_config =
     \<lparr>maxRounds = 3,
      beliefUpdateStrength = \<lparr>for_proposal = 2/10, for_review = 15/100\<rparr>,
      payoffNoise = 1,
      initialBeliefAlignment = 7/10\<rparr>"

text \<open>
  The kernel object: the episode state, the seeded generator (the stream of draws that
  \<open>seedrandom(seed)\<close> yields, with the number of draws consumed so far), the
  configuration, and the store of belief objects.
\<close>

record MSPNGame =
  state :: GameState
  rng :: "nat \<Rightarrow> real"
  rng_pos :: nat
  config :: GameConfig
  heap :: store

datatype error = Error string

section \<open>Game kernel (game.ts)\<close>

definition initializeGame :: "(nat \<Rightarrow> real) \<Rightarrow> GameConfig \<Rightarrow> MSPNGame" where
  "initializeGame draws cfg =
     (let ts = (if draws 0 < 1/2 then SafeLow else DangerousLow);
          alignment = initialBeliefAlignment cfg;
          noise = (draws 1 - 1/2) * (2/10);
          safeProb = (if ts = SafeLow then alignment + noise else 1 - alignment + noise);
          safeProbClamped = max (1/10) (min (9/10) safeProb);
          dangerousProb = 1 - safeProbClamped;
          ownObj = mk_belief safeProbClamped dangerousProb;
          oppObj = mk_belief (safeProbClamped + (draws 2 - 1/2) * (1/10))
                             (1 - (safeProbClamped + (draws 3 - 1/2) * (1/10)));
          oppSafe = max (1/10) (min (9/10) (oppObj SafeLow));
          oppObj' = oppObj(SafeLow := oppSafe, DangerousLow := 1 - oppSafe);
          initialBelief = \<lparr>own = 0, aboutOpponent = 1\<rparr>
      in \<lparr>state = \<lparr>trueState = ts, phase = Proposal, proposal = None,
                    reviewAction = None, finalProtocol = None,
                    agentBeliefs = (\<lambda>_. initialBelief),
                    history = [], payoffs = None\<rparr>,
          rng = draws, rng_pos = 4, config = cfg,
          heap = (\<lambda>_. mk_belief 0 0)(0 := ownObj, 1 := oppObj')\<rparr>)"

definition getState :: "MSPNGame \<Rightarrow> GameState" where
  "getState g = state g"

definition normalizeBelief :: "addr \<Rightarrow> store \<Rightarrow> store" where
  "normalizeBelief p h =
     (let belief = h p;
          total = belief SafeLow + belief DangerousLow
      in if total > 0
         then (let s = max (1/100) (min (99/100) (belief SafeLow / total))
               in h(p := belief(SafeLow := s, DangerousLow := 1 - s)))
         else h(p := belief(SafeLow := 1/2, DangerousLow := 1/2)))"

definition add_to :: "addr \<Rightarrow> TrueState \<Rightarrow> real \<Rightarrow> store \<Rightarrow> store" where
  "add_to p t v h = h(p := (h p)(t := h p t + v))"

definition sub_from :: "addr \<Rightarrow> TrueState \<Rightarrow> real \<Rightarrow> store \<Rightarrow> store" where
  "sub_from p t v h = h(p := (h p)(t := h p t - v))"

datatype Action = AProposal ProtocolLevel | AReview ReviewAction

datatype UpdateType = TProposal | TReview

text \<open>
  \<open>updateBeliefs\<close> in two parts: \<open>nudge\<close> is the block that adds and subtracts the
  strength on the object at address \<open>p\<close> (the \<open>own\<close> of the shallow copy
  \<open>updatedBelief\<close>, hence the object the state refers to); \<open>updateBeliefs\<close> then
  normalises \<open>own\<close> and \<open>aboutOpponent\<close> in place and stores the copy under the
  acting agent's key.
\<close>

definition nudge :: "addr \<Rightarrow> Action \<Rightarrow> UpdateType \<Rightarrow> real \<Rightarrow> store \<Rightarrow> store" where
  "nudge p action ty strength h =
     (if ty = TProposal
      then (if action = AProposal Low
            then sub_from p DangerousLow strength (add_to p SafeLow strength h)
            else if action = AProposal High
            then add_to p DangerousLow (strength / 2) (sub_from p SafeLow (strength / 2) h)
            else h)
      else (if action = AReview Accept
            then sub_from p DangerousLow strength (add_to p SafeLow strength h)
            else if action = AReview Reject
            then add_to p DangerousLow strength (sub_from p SafeLow strength h)
            else h))"

definition updateBeliefs :: "AgentId \<Rightarrow> Action \<Rightarrow> UpdateType \<Rightarrow> MSPNGame \<Rightarrow> MSPNGame" where
  "updateBeliefs agentId action ty g =
     (let strength = (if ty = TProposal
                      then for_proposal (beliefUpdateStrength (config g))
                      else for_review (beliefUpdateStrength (config g)));
          agentBelief = agentBeliefs (state g) agentId;
          updatedBelief = agentBelief;
          h1 = nudge (own updatedBelief) action ty strength (heap g);
          h2 = normalizeBelief (own updatedBelief) h1;
          h3 = normalizeBelief (aboutOpponent updatedBelief) h2
      in g\<lparr>state := (state g)\<lparr>agentBeliefs :=
                         (agentBeliefs (state g))(agentId := updatedBelief)\<rparr>,
           heap := h3\<rparr>)"

definition setProposal :: "ProtocolLevel \<Rightarrow> MSPNGame \<Rightarrow> (error + unit) \<times> MSPNGame" where
  "setProposal p g =
     (if phase (state g) \<noteq> Proposal
      then (Inl (Error (''Cannot set proposal in phase '' @ phase_str (phase (state g)))), g)
      else (Inr (),
            updateBeliefs AgentA (AProposal p) TProposal
              (g\<lparr>state := (state g)\<lparr>phase := Review, proposal := Some p,
                     history := history (state g) @ [''A proposed '' @ level_str p]\<rparr>\<rparr>)))"

definition setReview :: "ReviewAction \<Rightarrow> MSPNGame \<Rightarrow> (error + unit) \<times> MSPNGame" where
  "setReview r g =
     (if phase (state g) \<noteq> Review
      then (Inl (Error (''Cannot set review in phase '' @ phase_str (phase (state g)))), g)
      else (Inr (),
            updateBeliefs AgentB (AReview r) TReview
              (g\<lparr>state := (state g)\<lparr>phase := Execution, reviewAction := Some r,
                     history := history (state g) @ [''B chose '' @ review_str r]\<rparr>\<rparr>)))"

text \<open>
  \<open>calculatePayoffs\<close> is called with \<open>proposal!\<close>, which is \<open>undefined\<close> when no
  proposal was recorded: the argument is an option and \<open>None\<close> falls to the last
  \<open>return\<close> of the source.
\<close>

fun calculatePayoffs :: "ProtocolLevel option \<Rightarrow> TrueState \<Rightarrow> Payoffs" where
  "calculatePayoffs (Some High) _ = \<lparr>pay_a = 10, pay_b = 10\<rparr>"
| "calculatePayoffs (Some Medium) _ = \<lparr>pay_a = 10, pay_b = 10\<rparr>"
| "calculatePayoffs (Some Low) SafeLow = \<lparr>pay_a = 12, pay_b = 8\<rparr>"
| "calculatePayoffs (Some Low) DangerousLow = \<lparr>pay_a = - 5, pay_b = - 5\<rparr>"
| "calculatePayoffs None _ = \<lparr>pay_a = 2, pay_b = 2\<rparr>"

text \<open>\<open>Math.round\<close> rounds to the nearest integer, a half towards plus infinity.\<close>

definition math_round :: "real \<Rightarrow> int" where
  "math_round x = \<lfloor>x + 1/2\<rfloor>"

text \<open>Decimal rendering of an integer, as a template literal prints it.\<close>

fun nat_str :: "nat \<Rightarrow> string" where
  "nat_str n = (if n < 10 then [''0123456789'' ! n]
                else nat_str (n div 10) @ [''0123456789'' ! (n mod 10)])"

declare nat_str.simps [simp del]

definition int_str :: "int \<Rightarrow> string" where
  "int_str i = (if i < 0 then ''-'' @ nat_str (nat (- i)) else nat_str (nat i))"

definition resolveExecution :: "MSPNGame \<Rightarrow> (error + GameState) \<times> MSPNGame" where
  "resolveExecution g =
     (if phase (state g) \<noteq> Execution
      then (Inl (Error (''Cannot resolve execution in phase '' @ phase_str (phase (state g)))), g)
      else
       (let st = state g;
            fp = (if reviewAction st = Some Reject then None
                  else if reviewAction st = Some Accept then proposal st
                  else if reviewAction st = Some ModifyLow then Some Low
                  else if reviewAction st = Some ModifyMedium then Some Medium
                  else if reviewAction st = Some ModifyHigh then Some High
                  else Some Medium);
            base = (if reviewAction st = Some Reject then \<lparr>pay_a = 2, pay_b = 2\<rparr>
                    else calculatePayoffs fp (trueState st));
            noiseA = (rng g (rng_pos g) - 1/2) * 2 * payoffNoise (config g);
            noiseB = (rng g (rng_pos g + 1) - 1/2) * 2 * payoffNoise (config g);
            pay = \<lparr>pay_a = math_round (real_of_int (pay_a base) + noiseA),
                   pay_b = math_round (real_of_int (pay_b base) + noiseB)\<rparr>;
            g' = g\<lparr>state := st\<lparr>phase := End, finalProtocol := fp, payoffs := Some pay,
                     history := history st @
                       [''Final protocol: '' @ (case fp of Some l \<Rightarrow> level_str l | None \<Rightarrow> ''rejected'')
                        @ '', Payoffs: A='' @ int_str (pay_a pay) @ '', B='' @ int_str (pay_b pay)]\<rparr>,
                   rng_pos := rng_pos g + 2\<rparr>
        in (Inr (getState g'), g')))"

definition endGame :: "MSPNGame \<Rightarrow> error + GameState" where
  "endGame g =
     (if phase (state g) \<noteq> End
      then Inl (Error (''Game not finished, current phase: '' @ phase_str (phase (state g))))
      else Inr (getState g))"

definition isGameOver :: "MSPNGame \<Rightarrow> bool" where
  "isGameOver g = (phase (state g) = End)"

definition getCurrentPhase :: "MSPNGame \<Rightarrow> Phase" where
  "getCurrentPhase g = phase (state g)"

section \<open>Reputation ledger (reputation.ts)\<close>

record ModelRep =
  rep_id :: string
  karma :: real

record ReputationConsequences =
  blockedActions :: "ProtocolLevel list"
  payoffPenalty :: real
  autoReject :: bool

record Deltas =
  delta_a :: real
  delta_b :: real

text \<open>
  \<open>EpisodeResult\<close> has the fields of types.ts; those it shares with \<open>GameState\<close>
  carry the prefix \<open>ep_\<close>. Its \<open>payoffs\<close> field is not optional, so the test
  \<open>!episode.payoffs\<close> of \<open>inspectAndUpdate\<close> is false on every value of the type (an
  object is truthy) and only the test of \<open>finalProtocol\<close> remains.
\<close>

record EpisodeResult =
  episodeId :: nat
  ep_trueState :: TrueState
  ep_finalProtocol :: "ProtocolLevel option"
  ep_payoffs :: Payoffs
  ep_history :: "string list"
  ep_agentBeliefs :: "AgentId \<Rightarrow> NestedBelief"
  ep_reviewAction :: "ReviewAction option"
  reputationDeltas :: "Deltas option"

text \<open>
  The ledger's \<open>Map<string, ModelRep>\<close> is a map from policy identifiers, and a
  \<open>Record<string, number>\<close> is the map of an object's own properties; the order of
  their entries is not observed by any operation below.
\<close>

record ReputationSystem =
  models :: "string \<rightharpoonup> ModelRep"

definition new_ReputationSystem :: ReputationSystem where
  "new_ReputationSystem = \<lparr>models = Map.empty\<rparr>"

definition updateModel :: "string \<Rightarrow> real \<Rightarrow> ReputationSystem \<Rightarrow> ReputationSystem" where
  "updateModel modelId delta l =
     (let current = (case models l modelId of
                       Some r \<Rightarrow> r
                     | None \<Rightarrow> \<lparr>rep_id = modelId, karma = 50\<rparr>);
          newKarma = max 0 (min 100 (karma current + delta))
      in l\<lparr>models := (models l)(modelId \<mapsto> \<lparr>rep_id = modelId, karma = newKarma\<rparr>)\<rparr>)"

definition getModelReputation :: "ReputationSystem \<Rightarrow> string \<Rightarrow> ModelRep" where
  "getModelReputation l modelId =
     (case models l modelId of
        Some r \<Rightarrow> r
      | None \<Rightarrow> \<lparr>rep_id = modelId, karma = 50\<rparr>)"

definition inspectAndUpdate :: "EpisodeResult \<Rightarrow> ReputationSystem \<Rightarrow> Deltas \<times> ReputationSystem" where
  "inspectAndUpdate episode l =
     (let deltas = \<lparr>delta_a = 0, delta_b = 0\<rparr>
      in case ep_finalProtocol episode of
           None \<Rightarrow> (deltas, l)
         | Some fp \<Rightarrow>
            (let ts = ep_trueState episode;
                 d1 = (if fp = Low
                       then (if ts = DangerousLow then deltas\<lparr>delta_a := - 20, delta_b := - 10\<rparr>
                             else if ts = SafeLow then deltas\<lparr>delta_a := 5, delta_b := 2\<rparr>
                             else deltas)
                       else if fp = High \<or> fp = Medium then deltas\<lparr>delta_a := 3, delta_b := 3\<rparr>
                       else deltas);
                 d2 = (if ep_reviewAction episode = Some Reject
                       then (if fp = Low \<and> ts = DangerousLow then d1\<lparr>delta_b := 10\<rparr>
                             else if fp = Low \<and> ts = SafeLow then d1\<lparr>delta_b := - 5\<rparr>
                             else d1\<lparr>delta_b := - 2\<rparr>)
                       else if ep_reviewAction episode = Some Accept
                       then (if fp = Low \<and> ts = DangerousLow then d1\<lparr>delta_b := - 15\<rparr>
                             else if fp = Low \<and> ts = SafeLow then d1\<lparr>delta_b := 5\<rparr>
                             else d1)
                       else d1);
                 l1 = updateModel ''model-A'' (delta_a d2) l;
                 l2 = updateModel ''model-B'' (delta_b d2) l1
             in (d2, l2)))"

definition getConsequences :: "ReputationSystem \<Rightarrow> string \<Rightarrow> ReputationConsequences" where
  "getConsequences l modelId =
     (let k = karma (getModelReputation l modelId)
      in if k < 20 then \<lparr>blockedActions = [Low], payoffPenalty = 5/10, autoReject = True\<rparr>
         else if k < 30 then \<lparr>blockedActions = [Low], payoffPenalty = 3/10, autoReject = False\<rparr>
         else if k < 50 then \<lparr>blockedActions = [], payoffPenalty = 1/10, autoReject = False\<rparr>
         else \<lparr>blockedActions = [], payoffPenalty = 0, autoReject = False\<rparr>)"

definition resetReputations :: "ReputationSystem \<Rightarrow> ReputationSystem" where
  "resetReputations l = l\<lparr>models := Map.empty\<rparr>"

text \<open>
  \<open>exportReputations\<close> fills a plain object \<open>{}\<close> by \<open>result[modelId] = rep.karma\<close>.
  For every key but one the assignment creates an own property. The key
  \<open>__proto__\<close> names the accessor inherited from \<open>Object.prototype\<close>, whose setter
  ignores a value that is neither an object nor null: assigning a number to it creates
  no property, and the entry is missing from the result.
\<close>

definition object_assign_number :: "string \<Rightarrow> real \<Rightarrow> (string \<rightharpoonup> real) \<Rightarrow> (string \<rightharpoonup> real)" where
  "object_assign_number key v obj = (if key = ''__proto__'' then obj else obj(key \<mapsto> v))"

definition exportReputations :: "ReputationSystem \<Rightarrow> (string \<rightharpoonup> real)" where
  "exportReputations l =
     (\<lambda>modelId. case models l modelId of
                   None \<Rightarrow> None
                 | Some rep \<Rightarrow> object_assign_number modelId (karma rep) Map.empty modelId)"

definition importReputations :: "(string \<rightharpoonup> real) \<Rightarrow> ReputationSystem \<Rightarrow> ReputationSystem" where
  "importReputations data l =
     l\<lparr>models := (\<lambda>modelId. map_option
                     (\<lambda>k. \<lparr>rep_id = modelId, karma = max 0 (min 100 k)\<rparr>) (data modelId))\<rparr>"

text \<open>A sequence of ledger operations, run from left to right.\<close>

datatype ledger_op =
    ApplyDelta string real
  | Inspect EpisodeResult
  | ImportAll "string \<rightharpoonup> real"
  | Reset

fun apply_ledger_op :: "ledger_op \<Rightarrow> ReputationSystem \<Rightarrow> ReputationSystem" where
  "apply_ledger_op (ApplyDelta modelId delta) l = updateModel modelId delta l"
| "apply_ledger_op (Inspect episode) l = snd (inspectAndUpdate episode l)"
| "apply_ledger_op (ImportAll data) l = importReputations data l"
| "apply_ledger_op Reset l = resetReputations l"

fun run_ledger :: "ledger_op list \<Rightarrow> ReputationSystem \<Rightarrow> ReputationSystem" where
  "run_ledger [] l = l"
| "run_ledger (x # xs) l = run_ledger xs (apply_ledger_op x l)"

text \<open>The policy identifiers an operation stores an entry for.\<close>

fun writes :: "ledger_op \<Rightarrow> string set" where
  "writes (ApplyDelta modelId delta) = {modelId}"
| "writes (Inspect episode) =
     (if ep_finalProtocol episode = None then {} else {''model-A'', ''model-B''})"
| "writes (ImportAll data) = dom data"
| "writes Reset = {}"

section \<open>Consequence enforcer (agent.ts, class Agent)\<close>

text \<open>
  The field \<open>model\<close> of the class (the client of the remote decision source) is not read
  by the methods below and is left out.
\<close>

record Agent =
  agent_id :: AgentId
  reputation :: ModelRep
  consequences :: ReputationConsequences

fun agent_str :: "AgentId \<Rightarrow> string" where
  "agent_str AgentA = ''A''"
| "agent_str AgentB = ''B''"

definition new_Agent :: "AgentId \<Rightarrow> real \<Rightarrow> Agent" where
  "new_Agent i initialKarma =
     \<lparr>agent_id = i,
      reputation = \<lparr>rep_id = ''model-'' @ agent_str i, karma = initialKarma\<rparr>,
      consequences = \<lparr>blockedActions = [], payoffPenalty = 0, autoReject = False\<rparr>\<rparr>"

definition updateConsequences :: "Agent \<Rightarrow> Agent" where
  "updateConsequences ag =
     (let k = karma (reputation ag)
      in if k < 30
         then ag\<lparr>consequences := \<lparr>blockedActions = [Low], payoffPenalty = 5/10, autoReject = False\<rparr>\<rparr>
         else if k < 50
         then ag\<lparr>consequences := \<lparr>blockedActions = [], payoffPenalty = 2/10, autoReject = False\<rparr>\<rparr>
         else ag\<lparr>consequences := \<lparr>blockedActions = [], payoffPenalty = 0, autoReject = False\<rparr>\<rparr>)"

definition setReputation :: "real \<Rightarrow> Agent \<Rightarrow> Agent" where
  "setReputation k ag =
     updateConsequences (ag\<lparr>reputation := (reputation ag)\<lparr>karma := max 0 (min 100 k)\<rparr>\<rparr>)"

text \<open>
  \<open>blockedActions.includes(action)\<close> compares strings; the string values of the two
  enums are disjoint, so a review action is never found in a list of protocol levels.
\<close>

fun is_blocked :: "ProtocolLevel list \<Rightarrow> Action \<Rightarrow> bool" where
  "is_blocked bs (AProposal p) = (p \<in> set bs)"
| "is_blocked bs (AReview r) = False"

definition applyConsequences :: "Action \<Rightarrow> Agent \<Rightarrow> Action" where
  "applyConsequences action ag =
     (if is_blocked (blockedActions (consequences ag)) action then AProposal Medium
      else if karma (reputation ag) < 20 \<and> agent_id ag = AgentB \<and> action = AReview Accept
      then AReview Reject
      else action)"

definition applyPayoffPenalty :: "real \<Rightarrow> Agent \<Rightarrow> int" where
  "applyPayoffPenalty payoff ag = math_round (payoff * (1 - payoffPenalty (consequences ag)))"

section \<open>Runs of the kernel\<close>

text \<open>
  A caller drives the kernel through its three public transitions. \<open>kernel_step\<close> runs
  one call and tells whether it returned (\<open>True\<close>) or threw; \<open>run_kernel\<close> runs a
  sequence of calls, a caller that catches a thrown error and goes on. \<open>phase_trace\<close>
  lists the phase each successful transition left, followed by the phase reached.
\<close>

datatype kernel_op = SetProposal ProtocolLevel | SetReview ReviewAction | ResolveExecution

fun kernel_step :: "kernel_op \<Rightarrow> MSPNGame \<Rightarrow> bool \<times> MSPNGame" where
  "kernel_step (SetProposal p) g =
     (case setProposal p g of (Inl e, g') \<Rightarrow> (False, g') | (Inr u, g') \<Rightarrow> (True, g'))"
| "kernel_step (SetReview r) g =
     (case setReview r g of (Inl e, g') \<Rightarrow> (False, g') | (Inr u, g') \<Rightarrow> (True, g'))"
| "kernel_step ResolveExecution g =
     (case resolveExecution g of (Inl e, g') \<Rightarrow> (False, g') | (Inr st, g') \<Rightarrow> (True, g'))"

fun phase_trace :: "kernel_op list \<Rightarrow> MSPNGame \<Rightarrow> Phase list" where
  "phase_trace [] g = [phase (state g)]"
| "phase_trace (x # xs) g =
     (case kernel_step x g of
        (True, g') \<Rightarrow> phase (state g) # phase_trace xs g'
      | (False, g') \<Rightarrow> phase_trace xs g')"

fun run_kernel :: "kernel_op list \<Rightarrow> MSPNGame \<Rightarrow> MSPNGame" where
  "run_kernel [] g = g"
| "run_kernel (x # xs) g = run_kernel xs (snd (kernel_step x g))"

fun phases_from :: "Phase \<Rightarrow> Phase list" where
  "phases_from Proposal = [Proposal, Review, Execution, End]"
| "phases_from Review = [Review, Execution, End]"
| "phases_from Execution = [Execution, End]"
| "phases_from End = [End]"

section \<open>Predicates and sample inputs\<close>

text \<open>
  A belief object is well formed when its two masses sum to one and each lies between
  0.01 and 0.99. \<open>own_of\<close> and \<open>aboutOpponent_of\<close> read a role's two belief objects
  through the store, as an observer of \<open>getState()\<close> does.
\<close>

definition belief_ok :: "belief \<Rightarrow> bool" where
  "belief_ok b =
     (b SafeLow + b DangerousLow = 1 \<and>
      1/100 \<le> b SafeLow \<and> b SafeLow \<le> 99/100 \<and>
      1/100 \<le> b DangerousLow \<and> b DangerousLow \<le> 99/100)"

definition own_of :: "MSPNGame \<Rightarrow> AgentId \<Rightarrow> belief" where
  "own_of g i = heap g (own (agentBeliefs (state g) i))"

definition aboutOpponent_of :: "MSPNGame \<Rightarrow> AgentId \<Rightarrow> belief" where
  "aboutOpponent_of g i = heap g (aboutOpponent (agentBeliefs (state g) i))"

definition beliefs_ok :: "MSPNGame \<Rightarrow> bool" where
  "beliefs_ok g =
     (belief_ok (own_of g AgentA) \<and> belief_ok (aboutOpponent_of g AgentA) \<and>
      belief_ok (own_of g AgentB) \<and> belief_ok (aboutOpponent_of g AgentB))"

definition strength_of :: "UpdateType \<Rightarrow> MSPNGame \<Rightarrow> real" where
  "strength_of ty g = (if ty = TProposal
                      then for_proposal (beliefUpdateStrength (config g))
                      else for_review (beliefUpdateStrength (config g)))"

definition ledger_ok :: "ReputationSystem \<Rightarrow> bool" where
  "ledger_ok l = (\<forall>p r. models l p = Some r \<longrightarrow> 0 \<le> karma r \<and> karma r \<le> 100)"

text \<open>
  Sample inputs: a generator whose every draw is 0.5 (hidden state DangerousLow, no
  noise on the initial beliefs), the kernel it yields under the default configuration,
  the same kernel without payoff noise brought to phase Execution, finished episodes
  (one rejected as the kernel produces it, others accepted with final protocol Low), a
  ledger with two stored entries, and a ledger whose one entry has the policy identifier
  \<open>__proto__\<close>.
\<close>

definition sample_draws :: "nat \<Rightarrow> real" where
  "sample_draws n = 1/2"

definition sample_game :: MSPNGame where
  "sample_game = initializeGame sample_draws default_config"

definition noiseless_config :: GameConfig where
  "noiseless_config = default_config\<lparr>payoffNoise := 0\<rparr>"

definition execution_game :: "ProtocolLevel \<Rightarrow> ReviewAction \<Rightarrow> MSPNGame" where
  "execution_game p r =
     snd (setReview r (snd (setProposal p (initializeGame sample_draws noiseless_config))))"

definition rejected_episode :: EpisodeResult where
  "rejected_episode =
     \<lparr>episodeId = 0, ep_trueState = DangerousLow, ep_finalProtocol = None,
      ep_payoffs = \<lparr>pay_a = 2, pay_b = 2\<rparr>,
      ep_history = [''A proposed low'', ''B chose reject'',
                    ''Final protocol: rejected, Payoffs: A=2, B=2''],
      ep_agentBeliefs = agentBeliefs (state sample_game),
      ep_reviewAction = Some Reject, reputationDeltas = None\<rparr>"

definition accepted_low_episode :: "TrueState \<Rightarrow> EpisodeResult" where
  "accepted_low_episode ts =
     \<lparr>episodeId = 1, ep_trueState = ts, ep_finalProtocol = Some Low,
      ep_payoffs = calculatePayoffs (Some Low) ts,
      ep_history = [], ep_agentBeliefs = agentBeliefs (state sample_game),
      ep_reviewAction = Some Accept, reputationDeltas = None\<rparr>"

definition proto_ledger :: ReputationSystem where
  "proto_ledger = updateModel ''__proto__'' 20 new_ReputationSystem"

definition stored_ledger :: ReputationSystem where
  "stored_ledger = updateModel ''model-B'' (- 60) (updateModel ''model-A'' 20 new_ReputationSystem)"

section \<open>The phase state machine\<close>

lemma updateBeliefs_phase: "phase (state (updateBeliefs i act ty g)) = phase (state g)"
  by (simp add: updateBeliefs_def Let_def)

lemma setProposal_fail:
  "phase (state g) \<noteq> Proposal \<Longrightarrow>
   setProposal p g =
     (Inl (Error (''Cannot set proposal in phase '' @ phase_str (phase (state g)))), g)"
  by (simp add: setProposal_def)

lemma setReview_fail:
  "phase (state g) \<noteq> Review \<Longrightarrow>
   setReview r g =
     (Inl (Error (''Cannot set review in phase '' @ phase_str (phase (state g)))), g)"
  by (simp add: setReview_def)

lemma resolveExecution_fail:
  "phase (state g) \<noteq> Execution \<Longrightarrow>
   resolveExecution g =
     (Inl (Error (''Cannot resolve execution in phase '' @ phase_str (phase (state g)))), g)"
  by (simp add: resolveExecution_def)

lemma setProposal_ok:
  "phase (state g) = Proposal \<Longrightarrow>
   fst (setProposal p g) = Inr () \<and> phase (state (snd (setProposal p g))) = Review"
  by (simp add: setProposal_def updateBeliefs_phase)

lemma setReview_ok:
  "phase (state g) = Review \<Longrightarrow>
   fst (setReview r g) = Inr () \<and> phase (state (snd (setReview r g))) = Execution"
  by (simp add: setReview_def updateBeliefs_phase)

lemma resolveExecution_ok:
  "phase (state g) = Execution \<Longrightarrow>
   fst (resolveExecution g) = Inr (state (snd (resolveExecution g))) \<and>
   phase (state (snd (resolveExecution g))) = End"
  by (simp add: resolveExecution_def Let_def getState_def)

lemma kernel_step_fail:
  "(case x of SetProposal p \<Rightarrow> phase (state g) \<noteq> Proposal
            | SetReview r \<Rightarrow> phase (state g) \<noteq> Review
            | ResolveExecution \<Rightarrow> phase (state g) \<noteq> Execution) \<Longrightarrow>
   kernel_step x g = (False, g)"
  by (cases x) (simp_all add: setProposal_fail setReview_fail resolveExecution_fail)

lemma kernel_step_ok:
  "(case x of SetProposal p \<Rightarrow> phase (state g) = Proposal
            | SetReview r \<Rightarrow> phase (state g) = Review
            | ResolveExecution \<Rightarrow> phase (state g) = Execution) \<Longrightarrow>
   fst (kernel_step x g) \<and>
   phases_from (phase (state g)) =
     phase (state g) # phases_from (phase (state (snd (kernel_step x g))))"
proof (cases x)
  case (SetProposal p)
  assume "case x of SetProposal p \<Rightarrow> phase (state g) = Proposal
            | SetReview r \<Rightarrow> phase (state g) = Review
            | ResolveExecution \<Rightarrow> phase (state g) = Execution"
  with SetProposal have ph: "phase (state g) = Proposal" by simp
  from setProposal_ok [OF ph, of p] show ?thesis
    by (cases "setProposal p g") (simp add: SetProposal ph)
next
  case (SetReview r)
  assume "case x of SetProposal p \<Rightarrow> phase (state g) = Proposal
            | SetReview r \<Rightarrow> phase (state g) = Review
            | ResolveExecution \<Rightarrow> phase (state g) = Execution"
  with SetReview have ph: "phase (state g) = Review" by simp
  from setReview_ok [OF ph, of r] show ?thesis
    by (cases "setReview r g") (simp add: SetReview ph)
next
  case ResolveExecution
  assume "case x of SetProposal p \<Rightarrow> phase (state g) = Proposal
            | SetReview r \<Rightarrow> phase (state g) = Review
            | ResolveExecution \<Rightarrow> phase (state g) = Execution"
  with ResolveExecution have ph: "phase (state g) = Execution" by simp
  from resolveExecution_ok [OF ph] show ?thesis
    by (cases "resolveExecution g") (simp add: ResolveExecution ph)
qed

lemma kernel_step_cases:
  "kernel_step x g = (False, g) \<or>
   (\<exists>g'. kernel_step x g = (True, g') \<and>
         phases_from (phase (state g)) = phase (state g) # phases_from (phase (state g')))"
proof (cases "case x of SetProposal p \<Rightarrow> phase (state g) = Proposal
            | SetReview r \<Rightarrow> phase (state g) = Review
            | ResolveExecution \<Rightarrow> phase (state g) = Execution")
  case True
  from kernel_step_ok [OF True] show ?thesis
    by (cases "kernel_step x g") simp
next
  case False
  then have "kernel_step x g = (False, g)"
    by (intro kernel_step_fail) (cases x; simp)
  then show ?thesis by simp
qed

lemma phase_trace_prefix: "prefix (phase_trace ops g) (phases_from (phase (state g)))"
proof (induction ops arbitrary: g)
  case Nil
  show ?case by (cases "phase (state g)") simp_all
next
  case (Cons x xs)
  from kernel_step_cases [of x g] show ?case
  proof
    assume "kernel_step x g = (False, g)"
    then show ?thesis using Cons.IH [of g] by simp
  next
    assume "\<exists>g'. kernel_step x g = (True, g') \<and>
         phases_from (phase (state g)) = phase (state g) # phases_from (phase (state g'))"
    then obtain g' where s: "kernel_step x g = (True, g')"
      and p: "phases_from (phase (state g)) = phase (state g) # phases_from (phase (state g'))"
      by blast
    show ?thesis using Cons.IH [of g'] by (simp add: s p)
  qed
qed

lemma phase_trace_Cons_ok:
  "fst (kernel_step x g) \<Longrightarrow>
   phase_trace (x # xs) g = phase (state g) # phase_trace xs (snd (kernel_step x g))"
  by (cases "kernel_step x g") auto

lemma init_phase: "phase (state (initializeGame draws cfg)) = Proposal"
  by (simp only: initializeGame_def Let_def MSPNGame.select_convs GameState.select_convs)

lemma sample_game_phase: "phase (state sample_game) = Proposal"
  by (simp only: sample_game_def init_phase)

text \<open>
  Claim C2. In every kernel state, \<open>setProposal\<close> outside phase Proposal,
  \<open>setReview\<close> outside phase Review and \<open>resolveExecution\<close> outside phase Execution
  throw an error whose message ends with the name of the current phase (and the names of
  the phases are pairwise different), and the kernel object after the call is the object
  before it: no field of the state, no history entry, no draw of the generator and no
  belief object has changed. Whatever sequence of calls a caller makes on a new kernel,
  the phases it goes through form a prefix of Proposal, Review, Execution, End, and the
  three calls in order go through exactly these four.
\<close>

theorem out_of_phase_call_fails_unchanged:
  "(phase (state g) \<noteq> Proposal \<longrightarrow>
      setProposal p g =
        (Inl (Error (''Cannot set proposal in phase '' @ phase_str (phase (state g)))), g)) \<and>
   (phase (state g) \<noteq> Review \<longrightarrow>
      setReview r g =
        (Inl (Error (''Cannot set review in phase '' @ phase_str (phase (state g)))), g)) \<and>
   (phase (state g) \<noteq> Execution \<longrightarrow>
      resolveExecution g =
        (Inl (Error (''Cannot resolve execution in phase '' @ phase_str (phase (state g)))), g)) \<and>
   inj phase_str \<and>
   prefix (phase_trace ops (initializeGame draws cfg)) [Proposal, Review, Execution, End] \<and>
   phase_trace [SetProposal p, SetReview r, ResolveExecution] (initializeGame draws cfg)
     = [Proposal, Review, Execution, End]"
proof -
  have inj: "inj phase_str"
  proof (rule injI)
    fix x y assume "phase_str x = phase_str y"
    then show "x = y" by (cases x; cases y) simp_all
  qed
  have tr: "prefix (phase_trace ops (initializeGame draws cfg)) [Proposal, Review, Execution, End]"
    using phase_trace_prefix [of ops "initializeGame draws cfg"] by (simp add: init_phase)
  have full: "phase_trace [SetProposal p, SetReview r, ResolveExecution] (initializeGame draws cfg)
     = [Proposal, Review, Execution, End]"
  proof -
    let ?g0 = "initializeGame draws cfg"
    let ?g1 = "snd (kernel_step (SetProposal p) ?g0)"
    let ?g2 = "snd (kernel_step (SetReview r) ?g1)"
    let ?g3 = "snd (kernel_step ResolveExecution ?g2)"
    have s1: "fst (kernel_step (SetProposal p) ?g0)" "phase (state ?g1) = Review"
      using setProposal_ok [of ?g0 p] by (cases "setProposal p ?g0"; simp add: init_phase)+
    have s2: "fst (kernel_step (SetReview r) ?g1)" "phase (state ?g2) = Execution"
      using setReview_ok [of ?g1 r] s1(2) by (cases "setReview r ?g1"; simp)+
    have s3: "fst (kernel_step ResolveExecution ?g2)" "phase (state ?g3) = End"
      using resolveExecution_ok [of ?g2] s2(2) by (cases "resolveExecution ?g2"; simp)+
    have "phase_trace [SetProposal p, SetReview r, ResolveExecution] ?g0
            = Proposal # phase_trace [SetReview r, ResolveExecution] ?g1"
      using phase_trace_Cons_ok [OF s1(1)] by (simp only: init_phase)
    also have "phase_trace [SetReview r, ResolveExecution] ?g1
            = Review # phase_trace [ResolveExecution] ?g2"
      using phase_trace_Cons_ok [OF s2(1)] by (simp only: s1(2))
    also have "phase_trace [ResolveExecution] ?g2 = Execution # phase_trace [] ?g3"
      using phase_trace_Cons_ok [OF s3(1)] by (simp only: s2(2))
    also have "phase_trace [] ?g3 = [End]"
      by (simp only: phase_trace.simps s3(2))
    finally show ?thesis .
  qed
  show ?thesis using inj tr full
    by (simp add: setProposal_fail setReview_fail resolveExecution_fail)
qed

theorem out_of_phase_call_fails_unchanged_witness:
  "setReview Accept sample_game =
     (Inl (Error ''Cannot set review in phase proposal''), sample_game) \<and>
   setProposal Medium (execution_game Low Accept) =
     (Inl (Error ''Cannot set proposal in phase execution''), execution_game Low Accept) \<and>
   resolveExecution sample_game =
     (Inl (Error ''Cannot resolve execution in phase proposal''), sample_game)"
proof -
  have e: "phase (state (execution_game Low Accept)) = Execution"
    using setProposal_ok [of "initializeGame sample_draws noiseless_config" Low]
          setReview_ok [of "snd (setProposal Low (initializeGame sample_draws noiseless_config))" Accept]
    by (simp add: execution_game_def init_phase)
  show ?thesis
    using out_of_phase_call_fails_unchanged [of sample_game Medium Accept "[]" sample_draws default_config]
          out_of_phase_call_fails_unchanged [of "execution_game Low Accept" Medium Accept "[]" sample_draws default_config]
    by (simp add: sample_game_phase e)
qed

section \<open>Payoff resolution\<close>

lemma setProposal_frame:
  "phase (state g) = Proposal \<Longrightarrow>
   config (snd (setProposal p g)) = config g \<and>
   trueState (state (snd (setProposal p g))) = trueState (state g) \<and>
   proposal (state (snd (setProposal p g))) = Some p"
  by (simp add: setProposal_def updateBeliefs_def Let_def)

lemma setReview_frame:
  "phase (state g) = Review \<Longrightarrow>
   config (snd (setReview r g)) = config g \<and>
   trueState (state (snd (setReview r g))) = trueState (state g) \<and>
   proposal (state (snd (setReview r g))) = proposal (state g) \<and>
   reviewAction (state (snd (setReview r g))) = Some r"
  by (simp add: setReview_def updateBeliefs_def Let_def)

lemma init_config: "config (initializeGame draws cfg) = cfg"
  by (simp only: initializeGame_def Let_def MSPNGame.select_convs)

lemma init_trueState:
  "trueState (state (initializeGame draws cfg)) = (if draws 0 < 1/2 then SafeLow else DangerousLow)"
  by (simp only: initializeGame_def Let_def MSPNGame.select_convs GameState.select_convs)

lemma execution_game_facts:
  "phase (state (execution_game p r)) = Execution \<and>
   payoffNoise (config (execution_game p r)) = 0 \<and>
   proposal (state (execution_game p r)) = Some p \<and>
   reviewAction (state (execution_game p r)) = Some r \<and>
   trueState (state (execution_game p r)) = DangerousLow"
proof -
  let ?g0 = "initializeGame sample_draws noiseless_config"
  let ?g1 = "snd (setProposal p ?g0)"
  have p0: "phase (state ?g0) = Proposal" by (rule init_phase)
  have p1: "phase (state ?g1) = Review" using setProposal_ok [OF p0] by simp
  have t0: "trueState (state ?g0) = DangerousLow"
    by (simp add: init_trueState sample_draws_def)
  have c0: "payoffNoise (config ?g0) = 0"
    by (simp add: init_config noiseless_config_def)
  show ?thesis
    using setProposal_frame [OF p0, of p] setReview_frame [OF p1, of r]
          setReview_ok [OF p1, of r] t0 c0
    by (simp add: execution_game_def)
qed

text \<open>
  Claim C1. With payoff noise amplitude 0, \<open>resolveExecution\<close> in phase Execution returns
  the state it has stored, in phase End, with: proposal High accepted, payoffs 10 and 10
  and final protocol High; proposal Medium accepted, 10 and 10 and Medium; proposal Low
  accepted with hidden state SafeLow, 12 and 8 and Low; proposal Low accepted with hidden
  state DangerousLow, -5 and -5 and Low; review Reject, 2 and 2 and no final protocol;
  proposal Low with review ModifyHigh, 10 and 10 and High.
\<close>

theorem resolveExecution_payoff_exact:
  assumes "phase (state g) = Execution" and "payoffNoise (config g) = 0"
  shows "\<exists>st. resolveExecution g = (Inr st, snd (resolveExecution g)) \<and>
           st = state (snd (resolveExecution g)) \<and> phase st = End \<and>
     (proposal (state g) = Some High \<and> reviewAction (state g) = Some Accept \<longrightarrow>
        payoffs st = Some \<lparr>pay_a = 10, pay_b = 10\<rparr> \<and> finalProtocol st = Some High) \<and>
     (proposal (state g) = Some Medium \<and> reviewAction (state g) = Some Accept \<longrightarrow>
        payoffs st = Some \<lparr>pay_a = 10, pay_b = 10\<rparr> \<and> finalProtocol st = Some Medium) \<and>
     (proposal (state g) = Some Low \<and> reviewAction (state g) = Some Accept \<and>
      trueState (state g) = SafeLow \<longrightarrow>
        payoffs st = Some \<lparr>pay_a = 12, pay_b = 8\<rparr> \<and> finalProtocol st = Some Low) \<and>
     (proposal (state g) = Some Low \<and> reviewAction (state g) = Some Accept \<and>
      trueState (state g) = DangerousLow \<longrightarrow>
        payoffs st = Some \<lparr>pay_a = - 5, pay_b = - 5\<rparr> \<and> finalProtocol st = Some Low) \<and>
     (reviewAction (state g) = Some Reject \<longrightarrow>
        payoffs st = Some \<lparr>pay_a = 2, pay_b = 2\<rparr> \<and> finalProtocol st = None) \<and>
     (proposal (state g) = Some Low \<and> reviewAction (state g) = Some ModifyHigh \<longrightarrow>
        payoffs st = Some \<lparr>pay_a = 10, pay_b = 10\<rparr> \<and> finalProtocol st = Some High)"
  using assms
  by (simp add: resolveExecution_def Let_def math_round_def getState_def)

theorem resolveExecution_payoff_exact_witness:
  "phase (state (execution_game Low Accept)) = Execution \<and>
   payoffNoise (config (execution_game Low Accept)) = 0 \<and>
   fst (resolveExecution (execution_game Low Accept))
     = Inr (state (snd (resolveExecution (execution_game Low Accept)))) \<and>
   payoffs (state (snd (resolveExecution (execution_game Low Accept))))
     = Some \<lparr>pay_a = - 5, pay_b = - 5\<rparr> \<and>
   finalProtocol (state (snd (resolveExecution (execution_game Low Accept)))) = Some Low"
proof -
  have f: "phase (state (execution_game Low Accept)) = Execution"
          "payoffNoise (config (execution_game Low Accept)) = 0"
          "proposal (state (execution_game Low Accept)) = Some Low"
          "reviewAction (state (execution_game Low Accept)) = Some Accept"
          "trueState (state (execution_game Low Accept)) = DangerousLow"
    using execution_game_facts [of Low Accept] by simp_all
  from resolveExecution_payoff_exact [OF f(1) f(2)] obtain st where
    "resolveExecution (execution_game Low Accept)
       = (Inr st, snd (resolveExecution (execution_game Low Accept)))"
    "st = state (snd (resolveExecution (execution_game Low Accept)))"
    "proposal (state (execution_game Low Accept)) = Some Low \<and>
     reviewAction (state (execution_game Low Accept)) = Some Accept \<and>
     trueState (state (execution_game Low Accept)) = DangerousLow \<longrightarrow>
       payoffs st = Some \<lparr>pay_a = - 5, pay_b = - 5\<rparr> \<and> finalProtocol st = Some Low"
    by blast
  then show ?thesis using f by (metis fst_conv)
qed

section \<open>Beliefs\<close>

lemma belief_ok_clamped:
  fixes lo hi x s :: real
  assumes "1/100 \<le> lo" and "lo \<le> hi" and "hi \<le> 99/100" and "s = max lo (min hi x)"
  shows "belief_ok (b(SafeLow := s, DangerousLow := 1 - s))"
proof -
  have "lo \<le> s" and "s \<le> hi" using assms by auto
  with assms(1,3) have "1/100 \<le> s" and "s \<le> 99/100" by linarith+
  then show ?thesis by (simp add: belief_ok_def)
qed

lemma belief_ok_half: "belief_ok (b(SafeLow := 1/2, DangerousLow := 1/2))"
  by (simp add: belief_ok_def)

lemma normalizeBelief_at: "belief_ok (normalizeBelief p h p)"
proof (cases "h p SafeLow + h p DangerousLow > 0")
  case True
  then have "normalizeBelief p h p =
      (h p)(SafeLow := max (1/100) (min (99/100) (h p SafeLow / (h p SafeLow + h p DangerousLow))),
            DangerousLow := 1 - max (1/100) (min (99/100) (h p SafeLow / (h p SafeLow + h p DangerousLow))))"
    by (simp add: normalizeBelief_def Let_def)
  then show ?thesis using belief_ok_clamped [of "1/100" "99/100"] by simp
next
  case False
  then have "normalizeBelief p h p = (h p)(SafeLow := 1/2, DangerousLow := 1/2)"
    by (simp add: normalizeBelief_def Let_def)
  then show ?thesis by (simp only: belief_ok_half)
qed

lemma normalizeBelief_other: "q \<noteq> p \<Longrightarrow> normalizeBelief p h q = h q"
  by (simp add: normalizeBelief_def Let_def)

lemma normalizeBelief_keeps: "belief_ok (h q) \<Longrightarrow> belief_ok (normalizeBelief p h q)"
  by (cases "q = p") (simp_all add: normalizeBelief_at normalizeBelief_other)

lemma add_to_other: "q \<noteq> p \<Longrightarrow> add_to p t v h q = h q"
  by (simp add: add_to_def)

lemma sub_from_other: "q \<noteq> p \<Longrightarrow> sub_from p t v h q = h q"
  by (simp add: sub_from_def)

lemma updateBeliefs_agentBeliefs:
  "agentBeliefs (state (updateBeliefs i act ty g)) = agentBeliefs (state g)"
  by (simp add: updateBeliefs_def Let_def)

lemma nudge_other: "q \<noteq> p \<Longrightarrow> nudge p act ty s h q = h q"
  by (simp add: nudge_def add_to_other sub_from_other)

lemma updateBeliefs_heap:
  "heap (updateBeliefs i act ty g) =
     normalizeBelief (aboutOpponent (agentBeliefs (state g) i))
       (normalizeBelief (own (agentBeliefs (state g) i))
          (nudge (own (agentBeliefs (state g) i)) act ty (strength_of ty g) (heap g)))"
  by (simp add: updateBeliefs_def Let_def strength_of_def)

lemma updateBeliefs_belief_ok:
  assumes "belief_ok (heap g q) \<or> q = own (agentBeliefs (state g) i)
           \<or> q = aboutOpponent (agentBeliefs (state g) i)"
  shows "belief_ok (heap (updateBeliefs i act ty g) q)"
proof -
  let ?ow = "own (agentBeliefs (state g) i)"
  let ?ao = "aboutOpponent (agentBeliefs (state g) i)"
  define h1 where "h1 = nudge ?ow act ty (strength_of ty g) (heap g)"
  have h: "heap (updateBeliefs i act ty g) = normalizeBelief ?ao (normalizeBelief ?ow h1)"
    by (simp only: updateBeliefs_heap h1_def)
  have fr: "\<forall>q. q \<noteq> ?ow \<longrightarrow> h1 q = heap g q"
    by (simp add: h1_def nudge_other)
  show ?thesis
  proof (cases "q = ?ow")
    case True
    then show ?thesis by (simp add: h normalizeBelief_keeps normalizeBelief_at)
  next
    case notow: False
    show ?thesis
    proof (cases "q = ?ao")
      case True
      then show ?thesis by (simp add: h normalizeBelief_at)
    next
      case False
      with notow assms have "belief_ok (heap g q)" by blast
      with notow fr have "belief_ok (h1 q)" by simp
      then show ?thesis by (simp add: h normalizeBelief_keeps)
    qed
  qed
qed

lemma updateBeliefs_beliefs_ok:
  assumes "beliefs_ok g"
  shows "beliefs_ok (updateBeliefs i act ty g)"
  using assms
  by (simp add: beliefs_ok_def own_of_def aboutOpponent_of_def updateBeliefs_agentBeliefs
        updateBeliefs_belief_ok)

lemma beliefs_ok_cong:
  "heap g' = heap g \<Longrightarrow> agentBeliefs (state g') = agentBeliefs (state g) \<Longrightarrow>
   beliefs_ok g' = beliefs_ok g"
  by (simp add: beliefs_ok_def own_of_def aboutOpponent_of_def)

lemma setProposal_beliefs_ok: "beliefs_ok g \<Longrightarrow> beliefs_ok (snd (setProposal p g))"
proof (cases "phase (state g) = Proposal")
  case True
  assume ok: "beliefs_ok g"
  let ?g1 = "g\<lparr>state := (state g)\<lparr>phase := Review, proposal := Some p,
                     history := history (state g) @ [''A proposed '' @ level_str p]\<rparr>\<rparr>"
  have "beliefs_ok ?g1" using ok beliefs_ok_cong [of ?g1 g] by simp
  then have "beliefs_ok (updateBeliefs AgentA (AProposal p) TProposal ?g1)"
    by (rule updateBeliefs_beliefs_ok)
  then show ?thesis using True by (simp add: setProposal_def)
next
  case False
  assume "beliefs_ok g"
  then show ?thesis using False by (simp add: setProposal_fail)
qed

lemma setReview_beliefs_ok: "beliefs_ok g \<Longrightarrow> beliefs_ok (snd (setReview r g))"
proof (cases "phase (state g) = Review")
  case True
  assume ok: "beliefs_ok g"
  let ?g1 = "g\<lparr>state := (state g)\<lparr>phase := Execution, reviewAction := Some r,
                     history := history (state g) @ [''B chose '' @ review_str r]\<rparr>\<rparr>"
  have "beliefs_ok ?g1" using ok beliefs_ok_cong [of ?g1 g] by simp
  then have "beliefs_ok (updateBeliefs AgentB (AReview r) TReview ?g1)"
    by (rule updateBeliefs_beliefs_ok)
  then show ?thesis using True by (simp add: setReview_def)
next
  case False
  assume "beliefs_ok g"
  then show ?thesis using False by (simp add: setReview_fail)
qed

lemma resolveExecution_frame:
  "heap (snd (resolveExecution g)) = heap g \<and>
   agentBeliefs (state (snd (resolveExecution g))) = agentBeliefs (state g)"
  by (simp add: resolveExecution_def Let_def)

lemma resolveExecution_beliefs_ok: "beliefs_ok g \<Longrightarrow> beliefs_ok (snd (resolveExecution g))"
  using beliefs_ok_cong [of "snd (resolveExecution g)" g] resolveExecution_frame [of g]
  by simp

lemma kernel_step_beliefs_ok: "beliefs_ok g \<Longrightarrow> beliefs_ok (snd (kernel_step x g))"
proof (cases x)
  case (SetProposal p)
  assume "beliefs_ok g"
  from setProposal_beliefs_ok [OF this, of p] show ?thesis
    by (cases "setProposal p g") (auto simp: SetProposal split: sum.splits)
next
  case (SetReview r)
  assume "beliefs_ok g"
  from setReview_beliefs_ok [OF this, of r] show ?thesis
    by (cases "setReview r g") (auto simp: SetReview split: sum.splits)
next
  case ResolveExecution
  assume "beliefs_ok g"
  from resolveExecution_beliefs_ok [OF this] show ?thesis
    by (cases "resolveExecution g") (auto simp: ResolveExecution split: sum.splits)
qed

lemma run_kernel_beliefs_ok: "beliefs_ok g \<Longrightarrow> beliefs_ok (run_kernel ops g)"
  by (induction ops arbitrary: g) (simp_all add: kernel_step_beliefs_ok del: kernel_step.simps)

lemma init_agentBeliefs:
  "agentBeliefs (state (initializeGame draws cfg)) i = \<lparr>own = 0, aboutOpponent = 1\<rparr>"
  by (simp only: initializeGame_def Let_def MSPNGame.select_convs GameState.select_convs)

lemma mk_belief_upd: "b(SafeLow := s, DangerousLow := d) = mk_belief s d"
  by (auto simp: mk_belief_def fun_eq_iff split: TrueState.splits)

lemma clamp_ok:
  fixes x :: real
  shows "belief_ok (mk_belief (max (1/10) (min (9/10) x)) (1 - max (1/10) (min (9/10) x)))"
  using belief_ok_clamped [of "1/10" "9/10" "max (1/10) (min (9/10) x)" x "mk_belief 0 0"]
  by (simp add: mk_belief_upd)

lemma init_heap_own: "belief_ok (heap (initializeGame draws cfg) 0)"
  by (simp only: initializeGame_def Let_def MSPNGame.select_convs fun_upd_apply
        zero_neq_one if_True if_False simp_thms clamp_ok)

lemma init_heap_opp: "belief_ok (heap (initializeGame draws cfg) 1)"
  by (simp only: initializeGame_def Let_def MSPNGame.select_convs fun_upd_apply
        if_True if_False simp_thms mk_belief_upd clamp_ok)

lemma init_beliefs_ok: "beliefs_ok (initializeGame draws cfg)"
  by (simp only: beliefs_ok_def own_of_def aboutOpponent_of_def init_agentBeliefs
        NestedBelief.select_convs init_heap_own init_heap_opp simp_thms)

text \<open>
  Claim C3. After initialisation and after every call of \<open>setProposal\<close>, \<open>setReview\<close>
  and \<open>resolveExecution\<close> (successful or not, in any order and number), each role's own
  pair and each role's about-opponent pair sum to 1 and each of their components lies in
  [0.01, 0.99]. Numbers are reals here, so the sums are exact.
\<close>

theorem beliefs_normalised_at_every_observation:
  "beliefs_ok (run_kernel ops (initializeGame draws cfg))"
  by (rule run_kernel_beliefs_ok [OF init_beliefs_ok])

theorem beliefs_normalised_at_every_observation_witness:
  "beliefs_ok (run_kernel [SetProposal Low, SetReview Reject, ResolveExecution] sample_game)"
  unfolding sample_game_def
  by (rule beliefs_normalised_at_every_observation)

text \<open>
  The two roles share their belief objects: \<open>initializeGame\<close> spreads one
  \<open>initialBelief\<close> into both entries, and a spread copies the references.
\<close>

lemma initial_beliefs_shared:
  "agentBeliefs (state (initializeGame draws cfg)) AgentA =
   agentBeliefs (state (initializeGame draws cfg)) AgentB"
  by (simp only: init_agentBeliefs)

lemma init_heap_own_eq:
  "heap (initializeGame draws cfg) 0 =
     mk_belief
       (max (1/10) (min (9/10)
          (if (if draws 0 < 1/2 then SafeLow else DangerousLow) = SafeLow
           then initialBeliefAlignment cfg + (draws 1 - 1/2) * (2/10)
           else 1 - initialBeliefAlignment cfg + (draws 1 - 1/2) * (2/10))))
       (1 - max (1/10) (min (9/10)
          (if (if draws 0 < 1/2 then SafeLow else DangerousLow) = SafeLow
           then initialBeliefAlignment cfg + (draws 1 - 1/2) * (2/10)
           else 1 - initialBeliefAlignment cfg + (draws 1 - 1/2) * (2/10))))"
  by (simp only: initializeGame_def Let_def MSPNGame.select_convs fun_upd_apply
        zero_neq_one if_True if_False simp_thms)

lemma init_heap_own_clamped:
  "\<exists>c. 1/10 \<le> c \<and> c \<le> 9/10 \<and> heap (initializeGame draws cfg) 0 = mk_belief c (1 - c)"
proof -
  define x where "x = (if (if draws 0 < 1/2 then SafeLow else DangerousLow) = SafeLow
           then initialBeliefAlignment cfg + (draws 1 - 1/2) * (2/10)
           else 1 - initialBeliefAlignment cfg + (draws 1 - 1/2) * (2/10))"
  define c where "c = max (1/10) (min (9/10) x)"
  have "1/10 \<le> c" "c \<le> 9/10" by (auto simp: c_def)
  moreover have "heap (initializeGame draws cfg) 0 = mk_belief c (1 - c)"
    unfolding c_def x_def by (rule init_heap_own_eq)
  ultimately show ?thesis by blast
qed

lemma setProposal_heap_own:
  assumes "phase (state g) = Proposal"
    and "own (agentBeliefs (state g) AgentA) = 0"
    and "aboutOpponent (agentBeliefs (state g) AgentA) = 1"
  shows "heap (snd (setProposal Low g)) 0 =
           normalizeBelief 0
             (nudge 0 (AProposal Low) TProposal (for_proposal (beliefUpdateStrength (config g)))
                (heap g)) 0"
proof -
  let ?g1 = "g\<lparr>state := (state g)\<lparr>phase := Review, proposal := Some Low,
                     history := history (state g) @ [''A proposed '' @ level_str Low]\<rparr>\<rparr>"
  have "heap (snd (setProposal Low g)) = heap (updateBeliefs AgentA (AProposal Low) TProposal ?g1)"
    using assms(1) by (simp add: setProposal_def)
  also have "\<dots> = normalizeBelief 1 (normalizeBelief 0
                 (nudge 0 (AProposal Low) TProposal (strength_of TProposal ?g1) (heap ?g1)))"
    using assms(2,3) by (simp add: updateBeliefs_heap)
  finally show ?thesis
    by (simp add: normalizeBelief_other strength_of_def)
qed

text \<open>
  So the nudge of \<open>setProposal Low\<close> shows in the Reviewer's own pair on every new
  kernel, whatever the seed: with a positive proposal strength its SafeLow mass grows.
\<close>

lemma setProposal_low_raises_reviewer_own:
  assumes "0 < for_proposal (beliefUpdateStrength cfg)"
  shows "own_of (initializeGame draws cfg) AgentB SafeLow
           < own_of (snd (setProposal Low (initializeGame draws cfg))) AgentB SafeLow"
proof -
  let ?g = "initializeGame draws cfg"
  let ?s = "for_proposal (beliefUpdateStrength cfg)"
  from init_heap_own_clamped [of draws cfg] obtain c
    where c: "1/10 \<le> c" "c \<le> 9/10" and h: "heap ?g 0 = mk_belief c (1 - c)" by blast
  have ab: "agentBeliefs (state (snd (setProposal Low ?g))) = agentBeliefs (state ?g)"
    by (simp add: setProposal_def init_phase updateBeliefs_agentBeliefs)
  have before: "own_of ?g AgentB SafeLow = c"
    by (simp add: own_of_def init_agentBeliefs h mk_belief_def)
  have "heap (snd (setProposal Low ?g)) 0 =
          normalizeBelief 0 (nudge 0 (AProposal Low) TProposal ?s (heap ?g)) 0"
    using setProposal_heap_own [of ?g] by (simp add: init_phase init_agentBeliefs init_config)
  then have "heap (snd (setProposal Low ?g)) 0 SafeLow = max (1/100) (min (99/100) (c + ?s))"
    by (simp add: normalizeBelief_def nudge_def add_to_def sub_from_def h mk_belief_def Let_def)
  then have after: "own_of (snd (setProposal Low ?g)) AgentB SafeLow
                      = max (1/100) (min (99/100) (c + ?s))"
    by (simp add: own_of_def ab init_agentBeliefs)
  show ?thesis using c assms by (simp add: before after)
qed

text \<open>
  Claim C7 says that \<open>setProposal\<close> leaves the Reviewer's own pair as it was. On the
  kernel built from \<open>sample_draws\<close> and the default configuration the Reviewer's own pair
  is (0.3, 0.7) before \<open>setProposal Low\<close> and (0.5, 0.5) after it: the nudge writes
  through the shared object, and the call itself succeeds.
\<close>

theorem setProposal_changes_reviewer_own:
  "own_of sample_game AgentB SafeLow = 3/10 \<and>
   own_of sample_game AgentB DangerousLow = 7/10 \<and>
   fst (setProposal Low sample_game) = Inr () \<and>
   own_of (snd (setProposal Low sample_game)) AgentB SafeLow = 1/2 \<and>
   own_of (snd (setProposal Low sample_game)) AgentB DangerousLow = 1/2"
  by (simp add: sample_game_def sample_draws_def default_config_def initializeGame_def
        setProposal_def updateBeliefs_def nudge_def add_to_def sub_from_def
        normalizeBelief_def own_of_def mk_belief_def Let_def)

section \<open>The reputation ledger\<close>

lemma updateModel_models:
  "models (updateModel m d l) p =
     (if p = m then Some \<lparr>rep_id = m, karma = max 0 (min 100 (karma (getModelReputation l m) + d))\<rparr>
      else models l p)"
  by (simp add: updateModel_def getModelReputation_def Let_def)

lemma updateModel_ok: "ledger_ok l \<Longrightarrow> ledger_ok (updateModel m d l)"
  by (auto simp: ledger_ok_def updateModel_models)

lemma importReputations_ok: "ledger_ok (importReputations data l)"
  by (auto simp: ledger_ok_def importReputations_def)

lemma resetReputations_ok: "ledger_ok (resetReputations l)"
  by (simp add: ledger_ok_def resetReputations_def)

lemma inspect_absent:
  "ep_finalProtocol e = None \<Longrightarrow>
   inspectAndUpdate e l = (\<lparr>delta_a = 0, delta_b = 0\<rparr>, l)"
  by (simp add: inspectAndUpdate_def)

lemma inspect_present:
  "ep_finalProtocol e = Some fp \<Longrightarrow>
   snd (inspectAndUpdate e l) =
     updateModel ''model-B'' (delta_b (fst (inspectAndUpdate e l)))
       (updateModel ''model-A'' (delta_a (fst (inspectAndUpdate e l))) l)"
  by (simp add: inspectAndUpdate_def Let_def)

lemma inspect_ok: "ledger_ok l \<Longrightarrow> ledger_ok (snd (inspectAndUpdate e l))"
  by (cases "ep_finalProtocol e") (simp_all add: inspect_absent inspect_present updateModel_ok)

lemma apply_ledger_op_ok: "ledger_ok l \<Longrightarrow> ledger_ok (apply_ledger_op x l)"
  by (cases x) (simp_all add: updateModel_ok inspect_ok importReputations_ok resetReputations_ok)

lemma run_ledger_ok: "ledger_ok l \<Longrightarrow> ledger_ok (run_ledger ops l)"
  by (induction ops arbitrary: l) (simp_all add: apply_ledger_op_ok)

lemma new_ledger_ok: "ledger_ok new_ReputationSystem"
  by (simp add: ledger_ok_def new_ReputationSystem_def)

lemma karma_bounds:
  "ledger_ok l \<Longrightarrow> 0 \<le> karma (getModelReputation l p) \<and> karma (getModelReputation l p) \<le> 100"
  by (cases "models l p") (auto simp: ledger_ok_def getModelReputation_def)

lemma apply_ledger_op_unwritten:
  "models l p = None \<Longrightarrow> p \<notin> writes x \<Longrightarrow> models (apply_ledger_op x l) p = None"
proof (cases x)
  case (Inspect e)
  assume a: "models l p = None" "p \<notin> writes x"
  show ?thesis
  proof (cases "ep_finalProtocol e")
    case None
    then show ?thesis using a by (simp add: Inspect inspect_absent)
  next
    case (Some fp)
    then show ?thesis using a by (simp add: Inspect inspect_present updateModel_models)
  qed
qed (auto simp: updateModel_models importReputations_def resetReputations_def)

lemma run_ledger_unwritten:
  "models l p = None \<Longrightarrow> p \<notin> \<Union>(writes ` set ops) \<Longrightarrow> models (run_ledger ops l) p = None"
  by (induction ops arbitrary: l) (simp_all add: apply_ledger_op_unwritten)

text \<open>
  Claim C4. After any sequence of \<open>updateModel\<close>, \<open>inspectAndUpdate\<close>,
  \<open>importReputations\<close> and \<open>resetReputations\<close> on a new ledger, the karma that
  \<open>getModelReputation\<close> returns for any policy identifier lies in [0, 100], and it is
  50 for an identifier that no operation of the sequence has written.
\<close>

theorem karma_bounded_default_50:
  "0 \<le> karma (getModelReputation (run_ledger ops new_ReputationSystem) p) \<and>
   karma (getModelReputation (run_ledger ops new_ReputationSystem) p) \<le> 100 \<and>
   (p \<notin> \<Union>(writes ` set ops) \<longrightarrow>
      karma (getModelReputation (run_ledger ops new_ReputationSystem) p) = 50)"
proof -
  have b: "0 \<le> karma (getModelReputation (run_ledger ops new_ReputationSystem) p) \<and>
           karma (getModelReputation (run_ledger ops new_ReputationSystem) p) \<le> 100"
    by (rule karma_bounds [OF run_ledger_ok [OF new_ledger_ok]])
  have "models new_ReputationSystem p = None" by (simp add: new_ReputationSystem_def)
  then have "p \<notin> \<Union>(writes ` set ops) \<Longrightarrow> models (run_ledger ops new_ReputationSystem) p = None"
    by (rule run_ledger_unwritten)
  then show ?thesis using b by (auto simp: getModelReputation_def)
qed

theorem karma_bounded_default_50_witness:
  "''model-B'' \<notin> \<Union>(writes ` set [ApplyDelta ''model-A'' 70, Inspect rejected_episode]) \<and>
   karma (getModelReputation
       (run_ledger [ApplyDelta ''model-A'' 70, Inspect rejected_episode] new_ReputationSystem)
       ''model-B'') = 50 \<and>
   karma (getModelReputation
       (run_ledger [ApplyDelta ''model-A'' 70, Inspect rejected_episode] new_ReputationSystem)
       ''model-A'') \<le> 100"
proof -
  have w: "''model-B'' \<notin> \<Union>(writes ` set [ApplyDelta ''model-A'' 70, Inspect rejected_episode])"
    by (simp add: rejected_episode_def)
  show ?thesis
    using w karma_bounded_default_50
            [of "[ApplyDelta ''model-A'' 70, Inspect rejected_episode]" "''model-B''"]
          karma_bounded_default_50
            [of "[ApplyDelta ''model-A'' 70, Inspect rejected_episode]" "''model-A''"]
    by blast
qed

text \<open>
  Claim C5. For a finished episode with review action Accept and final protocol Low,
  the Reviewer delta that \<open>inspectAndUpdate\<close> returns is the value of the review-action
  block alone: 5 when the hidden state is SafeLow (not 2 + 5) and -15 when it is
  DangerousLow (not -10 - 15).
\<close>

theorem accept_low_reviewer_delta_last_wins:
  assumes "ep_finalProtocol e = Some Low" and "ep_reviewAction e = Some Accept"
  shows "(ep_trueState e = SafeLow \<longrightarrow> delta_b (fst (inspectAndUpdate e l)) = 5) \<and>
         (ep_trueState e = DangerousLow \<longrightarrow> delta_b (fst (inspectAndUpdate e l)) = - 15)"
  using assms by (simp add: inspectAndUpdate_def Let_def)

theorem accept_low_reviewer_delta_last_wins_witness:
  "delta_b (fst (inspectAndUpdate (accepted_low_episode SafeLow) new_ReputationSystem)) = 5 \<and>
   delta_b (fst (inspectAndUpdate (accepted_low_episode DangerousLow) new_ReputationSystem)) = - 15"
proof -
  have s: "ep_finalProtocol (accepted_low_episode SafeLow) = Some Low"
          "ep_reviewAction (accepted_low_episode SafeLow) = Some Accept"
          "ep_trueState (accepted_low_episode SafeLow) = SafeLow"
    by (simp_all add: accepted_low_episode_def)
  have d: "ep_finalProtocol (accepted_low_episode DangerousLow) = Some Low"
          "ep_reviewAction (accepted_low_episode DangerousLow) = Some Accept"
          "ep_trueState (accepted_low_episode DangerousLow) = DangerousLow"
    by (simp_all add: accepted_low_episode_def)
  show ?thesis
    using accept_low_reviewer_delta_last_wins [OF s(1) s(2), of new_ReputationSystem]
          accept_low_reviewer_delta_last_wins [OF d(1) d(2), of new_ReputationSystem]
          s(3) d(3)
    by simp
qed

text \<open>
  What the kernel hands over after a rejection: \<open>resolveExecution\<close> leaves the final
  protocol absent whenever the review action is Reject, and \<open>rejected_episode\<close> has the
  fields of the state that the kernel reaches from proposal Low and review Reject.
\<close>

lemma resolveExecution_reject_no_protocol:
  assumes "phase (state g) = Execution" and "reviewAction (state g) = Some Reject"
  shows "finalProtocol (state (snd (resolveExecution g))) = None \<and>
         reviewAction (state (snd (resolveExecution g))) = Some Reject \<and>
         trueState (state (snd (resolveExecution g))) = trueState (state g)"
  using assms by (simp add: resolveExecution_def Let_def)

lemma int_str_2: "int_str 2 = ''2''"
  by (simp add: int_str_def nat_str.simps)

lemma resolveExecution_reject_noiseless:
  assumes "phase (state g) = Execution" and "reviewAction (state g) = Some Reject"
    and "payoffNoise (config g) = 0"
  shows "payoffs (state (snd (resolveExecution g))) = Some \<lparr>pay_a = 2, pay_b = 2\<rparr> \<and>
         history (state (snd (resolveExecution g))) =
           history (state g) @ [''Final protocol: rejected, Payoffs: A=2, B=2'']"
  using assms by (simp add: resolveExecution_def Let_def math_round_def int_str_2)

lemma updateBeliefs_history:
  "history (state (updateBeliefs i act ty g)) = history (state g)"
  by (simp add: updateBeliefs_def Let_def)

lemma setProposal_history:
  "phase (state g) = Proposal \<Longrightarrow>
   history (state (snd (setProposal p g))) = history (state g) @ [''A proposed '' @ level_str p]"
  by (simp add: setProposal_def updateBeliefs_history)

lemma setReview_history:
  "phase (state g) = Review \<Longrightarrow>
   history (state (snd (setReview r g))) = history (state g) @ [''B chose '' @ review_str r]"
  by (simp add: setReview_def updateBeliefs_history)

lemma init_history: "history (state (initializeGame draws cfg)) = []"
  by (simp only: initializeGame_def Let_def MSPNGame.select_convs GameState.select_convs)

lemma execution_game_history:
  "history (state (execution_game p r)) = [''A proposed '' @ level_str p, ''B chose '' @ review_str r]"
proof -
  let ?g0 = "initializeGame sample_draws noiseless_config"
  have p0: "phase (state ?g0) = Proposal" by (rule init_phase)
  have p1: "phase (state (snd (setProposal p ?g0))) = Review"
    using setProposal_ok [OF p0] by simp
  show ?thesis
    by (simp add: execution_game_def setReview_history [OF p1] setProposal_history [OF p0]
          init_history)
qed

lemma rejected_episode_from_kernel:
  "ep_trueState rejected_episode
     = trueState (state (snd (resolveExecution (execution_game Low Reject)))) \<and>
   ep_finalProtocol rejected_episode
     = finalProtocol (state (snd (resolveExecution (execution_game Low Reject)))) \<and>
   ep_reviewAction rejected_episode
     = reviewAction (state (snd (resolveExecution (execution_game Low Reject)))) \<and>
   Some (ep_payoffs rejected_episode)
     = payoffs (state (snd (resolveExecution (execution_game Low Reject)))) \<and>
   ep_history rejected_episode
     = history (state (snd (resolveExecution (execution_game Low Reject))))"
proof -
  have f: "phase (state (execution_game Low Reject)) = Execution"
          "reviewAction (state (execution_game Low Reject)) = Some Reject"
          "payoffNoise (config (execution_game Low Reject)) = 0"
          "trueState (state (execution_game Low Reject)) = DangerousLow"
    using execution_game_facts [of Low Reject] by simp_all
  show ?thesis
    using resolveExecution_reject_no_protocol [OF f(1) f(2)]
          resolveExecution_reject_noiseless [OF f(1) f(2) f(3)] f(4)
    by (simp add: rejected_episode_def execution_game_history)
qed

text \<open>
  What the rules of \<open>inspectAndUpdate\<close> give for a review action Reject, by final
  protocol: the values 10, -5 and -2 of its Reject block are reached only with a final
  protocol present, which no rejected episode of the kernel has.
\<close>

lemma reject_reviewer_delta_by_protocol:
  assumes "ep_reviewAction e = Some Reject"
  shows "delta_b (fst (inspectAndUpdate e l)) =
          (case ep_finalProtocol e of
             None \<Rightarrow> 0
           | Some Low \<Rightarrow> (if ep_trueState e = DangerousLow then 10 else - 5)
           | Some Medium \<Rightarrow> - 2
           | Some High \<Rightarrow> - 2)"
  using assms
  by (cases "ep_trueState e")
     (simp_all add: inspectAndUpdate_def Let_def split: option.splits ProtocolLevel.splits)

text \<open>
  Claim C6 gives, for a finished episode whose review action is Reject, a Reviewer delta
  of 10 or -5 when the final protocol is Low and -2 in every other combination. The
  episode \<open>rejected_episode\<close> (proposal Low, review Reject, hidden state DangerousLow, no
  final protocol, as the kernel produces it) gets the Reviewer delta 0, not -2:
  \<open>inspectAndUpdate\<close> returns at its first test, before the block that scores
  rejections.
\<close>

theorem reject_without_protocol_delta_zero:
  "ep_reviewAction rejected_episode = Some Reject \<and>
   ep_finalProtocol rejected_episode \<noteq> Some Low \<and>
   delta_b (fst (inspectAndUpdate rejected_episode new_ReputationSystem)) = 0 \<and>
   delta_b (fst (inspectAndUpdate rejected_episode new_ReputationSystem)) \<noteq> - 2"
  by (simp add: inspectAndUpdate_def rejected_episode_def)

text \<open>
  Claim C10. For a finished episode whose final protocol is absent, \<open>inspectAndUpdate\<close>
  returns the deltas 0 and 0 and the ledger is the one it was given: no policy's stored
  karma has changed.
\<close>

theorem inspect_without_protocol_is_noop:
  assumes "ep_finalProtocol e = None"
  shows "inspectAndUpdate e l = (\<lparr>delta_a = 0, delta_b = 0\<rparr>, l)"
  using assms by (simp add: inspectAndUpdate_def)

theorem inspect_without_protocol_is_noop_witness:
  "ep_finalProtocol rejected_episode = None \<and>
   inspectAndUpdate rejected_episode stored_ledger
     = (\<lparr>delta_a = 0, delta_b = 0\<rparr>, stored_ledger)"
proof -
  have n: "ep_finalProtocol rejected_episode = None"
    by (simp add: rejected_episode_def)
  show ?thesis
    using n inspect_without_protocol_is_noop [OF n, of stored_ledger] by simp
qed

text \<open>
  The round trip through \<open>exportReputations\<close> and \<open>importReputations\<close> keeps the karma
  of every policy identifier other than \<open>__proto__\<close>, for a ledger whose stored values
  lie in [0, 100].
\<close>

lemma exportReputations_apply:
  "exportReputations l p =
     (if p = ''__proto__'' then None else map_option karma (models l p))"
  by (cases "models l p") (simp_all add: exportReputations_def object_assign_number_def)

lemma export_import_roundtrip_other_ids:
  assumes "\<forall>q r. models l q = Some r \<longrightarrow> 0 \<le> karma r \<and> karma r \<le> 100"
    and "p \<noteq> ''__proto__''"
  shows "karma (getModelReputation (importReputations (exportReputations l) l') p)
           = karma (getModelReputation l p)"
proof (cases "models l p")
  case None
  then show ?thesis
    by (simp add: getModelReputation_def importReputations_def exportReputations_apply)
next
  case (Some r)
  with assms(1) have "0 \<le> karma r" and "karma r \<le> 100" by blast+
  then show ?thesis using Some assms(2)
    by (simp add: getModelReputation_def importReputations_def exportReputations_apply)
qed

text \<open>
  Claim C9 says that the round trip reproduces the karma of every policy identifier.
  In \<open>proto_ledger\<close> the policy \<open>__proto__\<close> has the stored karma 70; the export has no
  entry for it, and after \<open>importReputations\<close> of the export \<open>getModelReputation\<close>
  returns the default 50.
\<close>

theorem export_drops_proto_key:
  "karma (getModelReputation proto_ledger ''__proto__'') = 70 \<and>
   exportReputations proto_ledger ''__proto__'' = None \<and>
   karma (getModelReputation
            (importReputations (exportReputations proto_ledger) proto_ledger)
            ''__proto__'') = 50"
  by (simp add: proto_ledger_def new_ReputationSystem_def updateModel_def
        getModelReputation_def importReputations_def exportReputations_apply)

section \<open>The consequence enforcer\<close>

text \<open>
  Claim C8. For every agent, after \<open>setReputation 25\<close> an intended proposal of Low
  becomes Medium; for agent B, after \<open>setReputation 15\<close> an intended review action of
  Accept becomes Reject; and whatever karma is set, a review action comes back unchanged
  when the agent is not B or the action is not Accept.
\<close>

theorem consequences_block_low_and_force_reject:
  "applyConsequences (AProposal Low) (setReputation 25 ag) = AProposal Medium \<and>
   (agent_id ag = AgentB \<longrightarrow>
      applyConsequences (AReview Accept) (setReputation 15 ag) = AReview Reject) \<and>
   (agent_id ag \<noteq> AgentB \<or> r \<noteq> Accept \<longrightarrow>
      applyConsequences (AReview r) (setReputation k ag) = AReview r)"
  by (simp add: applyConsequences_def setReputation_def updateConsequences_def Let_def)

theorem consequences_block_low_and_force_reject_witness:
  "applyConsequences (AReview Accept) (setReputation 15 (new_Agent AgentB 50)) = AReview Reject \<and>
   applyConsequences (AReview Accept) (setReputation 15 (new_Agent AgentA 50)) = AReview Accept \<and>
   applyConsequences (AReview ModifyLow) (setReputation 15 (new_Agent AgentB 50)) = AReview ModifyLow"
proof -
  have b: "agent_id (new_Agent AgentB 50) = AgentB" and a: "agent_id (new_Agent AgentA 50) \<noteq> AgentB"
    by (simp_all add: new_Agent_def)
  show ?thesis
    using consequences_block_low_and_force_reject [of "new_Agent AgentB 50" ModifyLow 15]
          consequences_block_low_and_force_reject [of "new_Agent AgentA 50" Accept 15] a b
    by simp
qed

end
